theory Spec2Isabelle
  imports Main "HOL-Library.AList"
begin

section \<open>Python values used by \<open>ceda_datapoint/core/cloud.py\<close>\<close>

text \<open>
  Exceptions are values. Each constructor is the Python exception class of the same
  name and carries the message; where the interpreter raises the error itself (a
  missing key, a bad operand, an index out of range) the message is abbreviated.
  \<open>ExternalError\<close> stands for whatever else a library call (requests, fsspec, xarray,
  json, open) may raise.
\<close>

datatype exn =
    NotImplementedError string
  | ValueError string
  | IndexError string
  | KeyError string
  | TypeError string
  | AttributeError string
  | UnboundLocalError string
  | FileNotFoundError string
  | ExternalError string

text \<open>
  A Python \<open>dict\<close> keeps insertion order and has unique keys: an association
  list. \<open>d[k] = v\<close> overwrites in place when \<open>k\<close> is present and appends
  otherwise; \<open>a | b\<close> is a copy of \<open>a\<close> into which the items of \<open>b\<close> are
  stored in order.
\<close>

type_synonym ('k, 'v) dict = "('k \<times> 'v) list"

definition dict_keys :: "('k, 'v) dict \<Rightarrow> 'k list" where
  "dict_keys d = map fst d"

definition dict_values :: "('k, 'v) dict \<Rightarrow> 'v list" where
  "dict_values d = map snd d"

definition dict_get :: "('k, 'v) dict \<Rightarrow> 'k \<Rightarrow> 'v option" where
  "dict_get d k = map_of d k"

definition dict_set :: "('k, 'v) dict \<Rightarrow> 'k \<Rightarrow> 'v \<Rightarrow> ('k, 'v) dict" where
  "dict_set d k v = AList.update k v d"

fun dict_merge :: "('k, 'v) dict \<Rightarrow> ('k, 'v) dict \<Rightarrow> ('k, 'v) dict" where
  "dict_merge a [] = a"
| "dict_merge a ((k, v) # b) = dict_merge (dict_set a k v) b"

text \<open>Values that travel in keyword options and metadata.\<close>

datatype pyval =
    VNone
  | VBool bool
  | VInt int
  | VStr string
  | VDict "(string \<times> pyval) list"

fun truthy :: "pyval \<Rightarrow> bool" where
  "truthy VNone = False"
| "truthy (VBool b) = b"
| "truthy (VInt i) = (i \<noteq> 0)"
| "truthy (VStr s) = (s \<noteq> [])"
| "truthy (VDict d) = (d \<noteq> [])"

type_synonym kwargs = "(string, pyval) dict"

text \<open>What \<open>json.loads\<close> returns.\<close>

datatype json =
    JNull
  | JBool bool
  | JInt int
  | JFloat string
  | JStr string
  | JList "json list"
  | JObj "(string \<times> json) list"

subsection \<open>Strings\<close>

definition startswith :: "string \<Rightarrow> string \<Rightarrow> bool" where
  "startswith s p = (take (length p) s = p)"

text \<open>\<open>sub in s\<close> for two strings.\<close>

fun str_contains :: "string \<Rightarrow> string \<Rightarrow> bool" where
  "str_contains sub [] = (sub = [])"
| "str_contains sub (c # cs) = (startswith (c # cs) sub \<or> str_contains sub cs)"

text \<open>
  \<open>s.replace(old, new)\<close>: every non-overlapping occurrence, scanning from the left.
  With an empty \<open>old\<close> Python puts \<open>new\<close> before every character and at the end.
\<close>

function replace_ne :: "string \<Rightarrow> string \<Rightarrow> string \<Rightarrow> string" where
  "replace_ne [] old new = []"
| "replace_ne (c # cs) old new =
     (if old \<noteq> [] \<and> startswith (c # cs) old
      then new @ replace_ne (drop (length old) (c # cs)) old new
      else c # replace_ne cs old new)"
  by pat_completeness auto
termination
  by (relation "measure (\<lambda>(s, old, new). length s)") auto

definition replace :: "string \<Rightarrow> string \<Rightarrow> string \<Rightarrow> string" where
  "replace s old new =
     (if old = [] then new @ concat (map (\<lambda>c. c # new) s) else replace_ne s old new)"

text \<open>\<open>xs[i]\<close> on a Python list: a negative index counts from the end.\<close>

definition list_index :: "'a list \<Rightarrow> int \<Rightarrow> exn + 'a" where
  "list_index xs i =
     (if 0 \<le> i \<and> i < int (length xs) then Inr (xs ! nat i)
      else if i < 0 \<and> - int (length xs) \<le> i then Inr (xs ! nat (int (length xs) + i))
      else Inl (IndexError ''list index out of range''))"

section \<open>Rewriting a reference document (\<open>_fetch_kerchunk_make_local\<close>, second half)\<close>

text \<open>
  The body of the loop for one value \<open>v = refs['refs'][key]\<close>; the result is the value
  stored under \<open>key\<close> afterwards. \<open>'https://' in v[0]\<close> is a substring test on a
  string, a membership test on a list, a key test on a dict and a \<open>TypeError\<close> on
  anything else; \<open>.replace\<close> exists on strings only.
\<close>

definition rewrite_value :: "json \<Rightarrow> exn + json" where
  "rewrite_value v =
     (case v of
        JList [a, b, c] \<Rightarrow>
          (case a of
             JStr s \<Rightarrow>
               if str_contains ''https://'' s
               then Inr (JList [JStr (replace s ''https://dap.ceda.ac.uk/'' ''/''), b, c])
               else Inr v
           | JList xs \<Rightarrow>
               if JStr ''https://'' \<in> set xs
               then Inl (AttributeError ''list object has no attribute replace'')
               else Inr v
           | JObj kvs \<Rightarrow>
               if ''https://'' \<in> set (dict_keys kvs)
               then Inl (AttributeError ''dict object has no attribute replace'')
               else Inr v
           | _ \<Rightarrow> Inl (TypeError ''argument is not iterable''))
      | _ \<Rightarrow> Inr v)"

text \<open>
  \<open>for key in refs['refs'].keys(): ...\<close> over the keys as they were when the loop
  began; the dict \<open>d\<close> is \<open>refs['refs']\<close>, updated in place.
\<close>

fun rewrite_loop :: "string list \<Rightarrow> (string, json) dict \<Rightarrow> exn + (string, json) dict" where
  "rewrite_loop [] d = Inr d"
| "rewrite_loop (key # keys) d =
     (case dict_get d key of
        None \<Rightarrow> Inl (KeyError key)
      | Some v \<Rightarrow>
          (case rewrite_value v of
             Inl e \<Rightarrow> Inl e
           | Inr v' \<Rightarrow> rewrite_loop keys (dict_set d key v')))"

definition rewrite_refs :: "json \<Rightarrow> exn + json" where
  "rewrite_refs refs =
     (case refs of
        JObj doc \<Rightarrow>
          (case dict_get doc ''refs'' of
             None \<Rightarrow> Inl (KeyError ''refs'')
           | Some (JObj d) \<Rightarrow>
               (case rewrite_loop (dict_keys d) d of
                  Inl e \<Rightarrow> Inl e
                | Inr d' \<Rightarrow> Inr (JObj (dict_set doc ''refs'' (JObj d'))))
           | Some _ \<Rightarrow> Inl (AttributeError ''object has no attribute keys''))
      | _ \<Rightarrow> Inl (TypeError ''refs is not subscriptable by a string''))"

section \<open>The outside world\<close>

text \<open>
  The calls that leave the module are logged in order, and what they answer is a
  parameter: \<open>requests.head\<close>, \<open>requests.get\<close> (the answer may differ from one request
  to the next, so it is indexed by the number of GET requests made before),
  \<open>os.path.isfile\<close>, \<open>open(...).read()\<close>, \<open>json.loads\<close>, \<open>fsspec.get_mapper\<close>,
  \<open>xr.open_zarr\<close>, \<open>xr.open_dataset\<close> and \<open>logger.warning\<close>. \<open>'m\<close> is the type of
  fsspec mappers and \<open>'d\<close> the type of xarray datasets.
\<close>

record response =
  status_code :: int
  resp_text :: string

datatype fo = FoHref string | FoRefs json

datatype 'm event =
    EHead string
  | EGet string
  | EIsFile string
  | EOpenFile string
  | EGetMapper fo kwargs
  | EOpenZarr 'm kwargs
  | EOpenDataset string pyval kwargs
  | ELogWarning string

type_synonym 'm world = "'m event list"

record ('m, 'd) env =
  requests_head :: "string \<Rightarrow> exn + int"
  requests_get :: "nat \<Rightarrow> string \<Rightarrow> exn + response"
  isfile :: "string \<Rightarrow> bool"
  read_file :: "string \<Rightarrow> exn + string"
  json_loads :: "string \<Rightarrow> exn + json"
  get_mapper :: "fo \<Rightarrow> kwargs \<Rightarrow> exn + 'm"
  open_zarr :: "'m \<Rightarrow> kwargs \<Rightarrow> exn + 'd"
  xr_open_dataset :: "string \<Rightarrow> pyval \<Rightarrow> kwargs \<Rightarrow> exn + 'd"

fun is_get :: "'m event \<Rightarrow> bool" where
  "is_get (EGet h) = True"
| "is_get _ = False"

definition n_gets :: "'m world \<Rightarrow> nat" where
  "n_gets w = length (filter is_get w)"

section \<open>Fetching a reference document (\<open>_fetch_kerchunk_make_local\<close>, first half)\<close>

text \<open>
  The \<open>while attempts < 3 and not success\<close> loop. \<open>resp\<close> is unbound before the first
  request (\<open>None\<close> here).
\<close>

function fetch_loop ::
  "('m, 'd) env \<Rightarrow> string \<Rightarrow> nat \<Rightarrow> bool \<Rightarrow> response option \<Rightarrow> 'm world
   \<Rightarrow> (exn + nat \<times> bool \<times> response option) \<times> 'm world" where
  "fetch_loop env href attempts success resp w =
     (if attempts < 3 \<and> \<not> success then
        (case requests_get env (n_gets w) href of
           Inl e \<Rightarrow> (Inl e, w @ [EGet href])
         | Inr r \<Rightarrow>
             fetch_loop env href (attempts + 1)
               (if status_code r = 200 then True else success) (Some r) (w @ [EGet href]))
      else (Inr (attempts, success, resp), w))"
  by pat_completeness auto
termination
  by (relation "measure (\<lambda>(env, href, attempts, success, resp, w). 3 - attempts)") auto

declare fetch_loop.simps [simp del]

definition msg_download :: "string \<Rightarrow> string" where
  "msg_download href = ''File '' @ href @ '': Download unsuccessful - ''
     @ ''could not download the file successfully (tried 3 times)''"

text \<open>Lines 378 to 395: the document, from the local file when it exists, else fetched.\<close>

definition fetch_document ::
  "('m, 'd) env \<Rightarrow> string \<Rightarrow> 'm world \<Rightarrow> (exn + json) \<times> 'm world" where
  "fetch_document env href w =
     (let href_local = replace href ''https://dap.ceda.ac.uk'' '''';
          w1 = w @ [EIsFile href_local]
      in if \<not> isfile env href_local then
           (case fetch_loop env href 0 False None w1 of
              (Inl e, w2) \<Rightarrow> (Inl e, w2)
            | (Inr (attempts, success, resp), w2) \<Rightarrow>
                if attempts \<ge> 3 \<and> \<not> success then
                  (Inl (ValueError (msg_download href)), w2)
                else
                  (case resp of
                     None \<Rightarrow> (Inl (UnboundLocalError ''resp''), w2)
                   | Some r \<Rightarrow> (json_loads env (resp_text r), w2)))
         else
           (case read_file env href_local of
              Inl e \<Rightarrow> (Inl e, w1 @ [EOpenFile href_local])
            | Inr s \<Rightarrow> (json_loads env s, w1 @ [EOpenFile href_local])))"

definition fetch_kerchunk_make_local ::
  "('m, 'd) env \<Rightarrow> string \<Rightarrow> 'm world \<Rightarrow> (exn + json) \<times> 'm world" where
  "fetch_kerchunk_make_local env href w =
     (case fetch_document env href w of
        (Inl e, w') \<Rightarrow> (Inl e, w')
      | (Inr refs, w') \<Rightarrow> (rewrite_refs refs, w'))"

definition zarr_kwargs_default :: "kwargs \<Rightarrow> kwargs" where
  "zarr_kwargs_default add_kwargs = dict_merge [(''consolidated'', VBool False)] add_kwargs"

section \<open>\<open>DataPointCloudProduct\<close>\<close>

text \<open>
  The asset as presented in the STAC index is a dict read at four keys; a key that is
  absent (or, for the three option dicts, holds \<open>None\<close>) is \<open>None\<close> here.
\<close>

record asset =
  stac_href :: "string option"
  stac_mapper_kwargs :: "kwargs option"
  stac_open_zarr_kwargs :: "kwargs option"
  stac_open_xarray_kwargs :: "kwargs option"

record product =
  p_id :: string
  p_order :: "int option"
  p_cloud_format :: "string option"
  p_asset_stac :: asset
  p_meta :: kwargs
  p_stac_attrs :: "kwargs option"
  p_properties :: "kwargs option"
  visibility :: string

definition msg_mode :: string where
  \<open>msg_mode = ''Only "xarray" mode currently implemented - cf-python is a future option''\<close>

definition msg_meta_none :: string where
  \<open>msg_meta_none = ''unsupported operand type(s) for |: 'NoneType' and 'dict'' @ [CHR 0x27]\<close>

definition msg_no_format :: string where
  "msg_no_format = ''No cloud format given for this dataset''"

definition msg_local_only :: string where
  \<open>msg_local_only = ''Href not reachable via https, please use `local_only=True` ''
     @ ''to open this dataset.''\<close>

definition msg_format :: string where
  \<open>msg_format = ''Cloud format not recognised - must be one of ("kerchunk", "CFA")''\<close>

definition msg_no_href :: string where
  \<open>msg_no_href = ''Cloud assets with no "href" are not supported''\<close>

definition msg_not_located :: "string \<Rightarrow> string" where
  "msg_not_located h = ''The requested resource could not be located: '' @ h"

definition cloud_format :: "product \<Rightarrow> string option" where
  "cloud_format p = p_cloud_format p"

text \<open>The \<open>href\<close> property: \<open>self._asset_stac['href']\<close>.\<close>

definition href :: "product \<Rightarrow> exn + string" where
  "href p = (case stac_href (p_asset_stac p) of None \<Rightarrow> Inl (KeyError ''href'') | Some h \<Rightarrow> Inr h)"

text \<open>
  Lines 361 to 364 of \<open>_set_visibility\<close>, reached when the href is not remote and when
  the remote probe did not answer 200.
\<close>

definition check_local_link ::
  "('m, 'd) env \<Rightarrow> product \<Rightarrow> string \<Rightarrow> 'm world \<Rightarrow> (exn + product) \<times> 'm world" where
  "check_local_link env p h w =
     (let local_ref = replace h ''https://dap.ceda.ac.uk'' ''''
      in if \<not> isfile env local_ref
         then (Inr (p\<lparr>visibility := ''unreachable''\<rparr>), w @ [EIsFile local_ref])
         else (Inr p, w @ [EIsFile local_ref]))"

definition set_visibility ::
  "('m, 'd) env \<Rightarrow> product \<Rightarrow> 'm world \<Rightarrow> (exn + product) \<times> 'm world" where
  "set_visibility env p w =
     (case href p of
        Inl e \<Rightarrow> (Inl e, w)
      | Inr h \<Rightarrow>
          if str_contains ''https://'' h then
            (case requests_head env h of
               Inl e \<Rightarrow> (Inl e, w @ [EHead h])
             | Inr status \<Rightarrow>
                 if status \<noteq> 200
                 then check_local_link env (p\<lparr>visibility := ''local-only''\<rparr>) h (w @ [EHead h])
                 else (Inr p, w @ [EHead h]))
          else check_local_link env p h w)"

definition product_init ::
  "('m, 'd) env \<Rightarrow> asset \<Rightarrow> string \<Rightarrow> string option \<Rightarrow> int option \<Rightarrow> string \<Rightarrow> kwargs option
   \<Rightarrow> kwargs option \<Rightarrow> kwargs option \<Rightarrow> 'm world \<Rightarrow> (exn + product) \<times> 'm world" where
  "product_init env asset_stac ident cf order mode meta stac_attrs properties w =
     (if mode \<noteq> ''xarray'' then (Inl (NotImplementedError msg_mode), w)
      else
        (case meta of
           None \<Rightarrow> (Inl (TypeError msg_meta_none), w)
         | Some m \<Rightarrow>
             set_visibility env
               \<lparr>p_id = ident, p_order = order, p_cloud_format = cf, p_asset_stac = asset_stac,
                p_meta = dict_merge m
                  [(''asset_id'', VStr ident),
                   (''cloud_format'', (case cf of None \<Rightarrow> VNone | Some s \<Rightarrow> VStr s))],
                p_stac_attrs = stac_attrs, p_properties = properties,
                visibility = ''all''\<rparr> w))"

text \<open>
  The methods that open a dataset take the receiver and give it back with the result,
  as a Python method that may assign to the fields of \<open>self\<close>.
\<close>

definition open_kerchunk ::
  "('m, 'd) env \<Rightarrow> product \<Rightarrow> bool \<Rightarrow> kwargs \<Rightarrow> 'm world \<Rightarrow> (exn + 'd) \<times> product \<times> 'm world" where
  "open_kerchunk env p local_only kwargs w =
     (case stac_href (p_asset_stac p) of
        None \<Rightarrow> (Inl (ValueError msg_no_href), p, w)
      | Some h \<Rightarrow>
          (let mapper_kwargs = (case stac_mapper_kwargs (p_asset_stac p) of None \<Rightarrow> [] | Some d \<Rightarrow> d);
               open_zarr_kwargs = (case stac_open_zarr_kwargs (p_asset_stac p) of None \<Rightarrow> [] | Some d \<Rightarrow> d)
           in
             (case (if local_only
                    then (case fetch_kerchunk_make_local env h w of
                            (Inl e, w') \<Rightarrow> (Inl e, w')
                          | (Inr refs, w') \<Rightarrow> (Inr (FoRefs refs), w'))
                    else (Inr (FoHref h), w)) of
                (Inl e, w1) \<Rightarrow> (Inl e, p, w1)
              | (Inr f, w1) \<Rightarrow>
                  if ''fo'' \<in> set (dict_keys mapper_kwargs)
                  then (Inl (TypeError ''got multiple values for keyword argument fo''), p, w1)
                  else
                    (case get_mapper env f mapper_kwargs of
                       Inl e \<Rightarrow> (Inl e, p, w1 @ [EGetMapper f mapper_kwargs])
                     | Inr mapper \<Rightarrow>
                         (let zarr_kwargs = dict_merge (zarr_kwargs_default open_zarr_kwargs) kwargs
                          in (open_zarr env mapper zarr_kwargs, p,
                              w1 @ [EGetMapper f mapper_kwargs, EOpenZarr mapper zarr_kwargs]))))))"

text \<open>
  \<open>_open_cfa(self, cfa_options=None, **kwargs)\<close> is called with \<open>**kwargs\<close>: the key
  \<open>cfa_options\<close> binds the parameter, the others stay in \<open>kwargs\<close>.
\<close>

definition open_cfa ::
  "('m, 'd) env \<Rightarrow> product \<Rightarrow> kwargs \<Rightarrow> 'm world \<Rightarrow> (exn + 'd) \<times> product \<times> 'm world" where
  "open_cfa env p kwargs0 w =
     (let cfa_options0 = (case dict_get kwargs0 ''cfa_options'' of None \<Rightarrow> VNone | Some v \<Rightarrow> v);
          kwargs = AList.delete ''cfa_options'' kwargs0;
          cfa_options = (if truthy cfa_options0 then cfa_options0 else VDict [])
      in case stac_href (p_asset_stac p) of
           None \<Rightarrow> (Inl (ValueError msg_no_href), p, w)
         | Some h \<Rightarrow>
             (let open_xarray_kwargs =
                    dict_merge (case stac_open_xarray_kwargs (p_asset_stac p) of None \<Rightarrow> [] | Some d \<Rightarrow> d) kwargs
              in if ''engine'' \<in> set (dict_keys open_xarray_kwargs)
                    \<or> ''cfa_options'' \<in> set (dict_keys open_xarray_kwargs)
                 then (Inl (TypeError ''got multiple values for keyword argument''), p, w)
                 else (xr_open_dataset env h cfa_options open_xarray_kwargs, p,
                       w @ [EOpenDataset h cfa_options open_xarray_kwargs])))"

definition open_dataset ::
  "('m, 'd) env \<Rightarrow> product \<Rightarrow> bool \<Rightarrow> kwargs \<Rightarrow> 'm world \<Rightarrow> (exn + 'd) \<times> product \<times> 'm world" where
  "open_dataset env p local_only kwargs w =
     (if p_cloud_format p = None \<or> p_cloud_format p = Some ''''
      then (Inl (ValueError msg_no_format), p, w)
      else if visibility p = ''local-only'' \<and> \<not> local_only
      then (Inl (ValueError msg_local_only), p, w)
      else
        (case (if p_cloud_format p = Some ''kerchunk'' then open_kerchunk env p local_only kwargs w
               else if p_cloud_format p = Some ''CFA'' then open_cfa env p kwargs w
               else (Inl (ValueError msg_format), p, w)) of
           (Inl (FileNotFoundError m), p', w') \<Rightarrow>
             (case stac_href (p_asset_stac p') of
                None \<Rightarrow> (Inl (KeyError ''href''), p', w')
              | Some h \<Rightarrow> (Inl (FileNotFoundError (msg_not_located h)), p', w'))
         | (r, p', w') \<Rightarrow> (r, p', w')))"

text \<open>A caller that opens a product again and again, whatever each call answers.\<close>

fun open_calls ::
  "('m, 'd) env \<Rightarrow> product \<Rightarrow> (bool \<times> kwargs) list \<Rightarrow> 'm world
   \<Rightarrow> (exn + 'd) list \<times> product \<times> 'm world" where
  "open_calls env p [] w = ([], p, w)"
| "open_calls env p ((local_only, kwargs) # calls) w =
     (case open_dataset env p local_only kwargs w of
        (r, p', w') \<Rightarrow>
          (case open_calls env p' calls w' of
             (rs, p'', w'') \<Rightarrow> (r # rs, p'', w'')))"

section \<open>\<open>DataPointCluster\<close>\<close>

record cluster =
  c_id :: string
  c_local_only :: bool
  c_show_unreachable :: bool
  c_products :: "(string, product) dict"
  c_meta :: kwargs

text \<open>An element of the list given to the constructor: a product, a cluster or \<open>None\<close>.\<close>

datatype entry = EntryProduct product | EntryCluster cluster | EntryNone

text \<open>
  Modelled from the spec: the \<open>id\<close> property of \<open>PropertiesMixin\<close>
  (\<open>ceda_datapoint.mixins\<close>, not among the sources), the identity the product was
  constructed with.
\<close>

definition product_id :: "product \<Rightarrow> string" where
  "product_id p = p_id p"

text \<open>The \<open>products\<close> property.\<close>

definition products :: "cluster \<Rightarrow> product list" where
  "products c =
     filter (\<lambda>v. visibility v \<noteq> ''unreachable'' \<or> c_show_unreachable c)
       (dict_values (c_products c))"

text \<open>The inner loop \<open>for sub_p in p.products\<close> and the outer loop \<open>for p in products\<close>.\<close>

fun add_products :: "product list \<Rightarrow> (string, product) dict \<Rightarrow> (string, product) dict" where
  "add_products [] d = d"
| "add_products (sub_p # rest) d = add_products rest (dict_set d (product_id sub_p) sub_p)"

fun add_entries :: "entry list \<Rightarrow> (string, product) dict \<Rightarrow> (string, product) dict" where
  "add_entries [] d = d"
| "add_entries (p # ps) d =
     add_entries ps
       (case p of
          EntryCluster c \<Rightarrow> add_products (products c) d
        | EntryProduct q \<Rightarrow> dict_set d (product_id q) q
        | EntryNone \<Rightarrow> d)"

text \<open>
  \<open>hash_id\<close> (\<open>ceda_datapoint.utils\<close>, not among the sources) is a parameter; a
  \<open>parent_id\<close> left at \<open>None\<close> is formatted as \<open>None\<close>.
\<close>

definition cluster_init ::
  "(string option \<Rightarrow> string) \<Rightarrow> entry list \<Rightarrow> string option \<Rightarrow> kwargs option \<Rightarrow> bool \<Rightarrow> bool
   \<Rightarrow> cluster" where
  "cluster_init hash_id entries parent_id meta local_only show_unreachable =
     \<lparr>c_id = (case parent_id of None \<Rightarrow> ''None'' | Some s \<Rightarrow> s) @ ''-'' @ hash_id parent_id,
      c_local_only = local_only,
      c_show_unreachable = show_unreachable,
      c_products = add_entries entries [],
      c_meta = dict_set (case meta of None \<Rightarrow> [] | Some m \<Rightarrow> m) ''products''
                 (VInt (int (length entries)))\<rparr>"

text \<open>An index is an \<open>int\<close> (a position) or anything else (an id).\<close>

datatype index = Pos int | Key string

definition msg_not_in_products :: "string \<Rightarrow> string" where
  \<open>msg_not_in_products k = ''"'' @ k @ ''" not found in available products.''\<close>

definition msg_not_in_datasets :: "string \<Rightarrow> string" where
  \<open>msg_not_in_datasets k = ''"'' @ k @ ''" not found in available datasets.''\<close>

definition getitem :: "cluster \<Rightarrow> index \<Rightarrow> exn + product" where
  "getitem c idx =
     (case (case idx of
              Pos i \<Rightarrow> list_index (dict_keys (c_products c)) i
            | Key k \<Rightarrow> Inr k) of
        Inl e \<Rightarrow> Inl e
      | Inr k \<Rightarrow>
          (case dict_get (c_products c) k of
             None \<Rightarrow> Inl (IndexError (msg_not_in_products k))
           | Some p \<Rightarrow> Inr p))"

text \<open>\<open>DataPointCluster.open_dataset\<close>; the result \<open>Inr None\<close> is Python's \<open>None\<close>.\<close>

definition cluster_open_dataset ::
  "('m, 'd) env \<Rightarrow> cluster \<Rightarrow> index \<Rightarrow> string \<Rightarrow> bool \<Rightarrow> kwargs \<Rightarrow> 'm world
   \<Rightarrow> (exn + 'd option) \<times> 'm world" where
  "cluster_open_dataset env c ident mode local_only0 kwargs w =
     (if mode \<noteq> ''xarray'' then (Inl (NotImplementedError msg_mode), w)
      else
        (let local_only = (local_only0 \<or> c_local_only c)
         in case (case ident of
                    Pos i \<Rightarrow> list_index (dict_keys (c_products c)) i
                  | Key k \<Rightarrow> Inr k) of
              Inl e \<Rightarrow> (Inl e, w)
            | Inr k \<Rightarrow>
                (case dict_get (c_products c) k of
                   None \<Rightarrow> (Inr None, w @ [ELogWarning (msg_not_in_datasets k)])
                 | Some p \<Rightarrow>
                     (case open_dataset env p local_only kwargs w of
                        (Inl e, p', w') \<Rightarrow> (Inl e, w')
                      | (Inr ds, p', w') \<Rightarrow> (Inr (Some ds), w')))))"

section \<open>Notions of the specification, and sample inputs\<close>

subsection \<open>Reference documents\<close>

text \<open>
  The specification's reading of one entry of \<open>refs\<close>: a 3-element sequence whose
  first element is a string containing \<open>https://dap.ceda.ac.uk/\<close> has that prefix
  replaced by \<open>/\<close>; any other entry stays as it is.
\<close>

definition localise_entry :: "json \<Rightarrow> json" where
  "localise_entry v =
     (case v of
        JList [JStr s, b, c] \<Rightarrow>
          if str_contains ''https://dap.ceda.ac.uk/'' s
          then JList [JStr (replace s ''https://dap.ceda.ac.uk/'' ''/''), b, c]
          else v
      | _ \<Rightarrow> v)"

definition is_triple :: "json \<Rightarrow> bool" where
  "is_triple v = (case v of JList [a, b, c] \<Rightarrow> True | _ \<Rightarrow> False)"

text \<open>The first element of a sequence is a string (the url of \<open>[url, offset, length]\<close>).\<close>

definition url_first :: "json \<Rightarrow> bool" where
  "url_first v = (case v of JList (JStr s # rest) \<Rightarrow> True | _ \<Rightarrow> False)"

text \<open>
  The example document with one more entry, \<open>"n": [null, 0, 5]\<close>: a 3-element sequence
  whose first element is not a string.
\<close>

definition example_refs_null :: json where
  "example_refs_null = JObj [(''version'', JInt 1), (''refs'', JObj
     [(''a'', JList [JStr ''https://dap.ceda.ac.uk/x/y'', JInt 10, JInt 20]),
      (''n'', JList [JNull, JInt 0, JInt 5]),
      (''b'', JStr ''scalar'')])]"

definition example_refs :: json where
  "example_refs = JObj [(''version'', JInt 1), (''refs'', JObj
     [(''a'', JList [JStr ''https://dap.ceda.ac.uk/x/y'', JInt 10, JInt 20]),
      (''b'', JStr ''scalar'')])]"

subsection \<open>Sample worlds and products\<close>

text \<open>
  A world in which the remote host answers 404 to every request and no local file
  exists, and one in which the host answers 404 and the local copy \<open>/x.json\<close> exists
  and holds the example document.
\<close>

definition env_down :: "(nat, nat) env" where
  "env_down =
     \<lparr>requests_head = (\<lambda>h. Inr 404),
      requests_get = (\<lambda>n h. Inr \<lparr>status_code = 404, resp_text = ''''\<rparr>),
      isfile = (\<lambda>path. False),
      read_file = (\<lambda>path. Inl (FileNotFoundError path)),
      json_loads = (\<lambda>s. Inl (ValueError ''Expecting value'')),
      get_mapper = (\<lambda>f k. Inr 0),
      open_zarr = (\<lambda>m k. Inr 0),
      xr_open_dataset = (\<lambda>h c k. Inr 0)\<rparr>"

definition env_local :: "(nat, nat) env" where
  "env_local =
     \<lparr>requests_head = (\<lambda>h. Inr 404),
      requests_get = (\<lambda>n h. Inr \<lparr>status_code = 404, resp_text = ''''\<rparr>),
      isfile = (\<lambda>path. path = ''/x.json''),
      read_file = (\<lambda>path. if path = ''/x.json'' then Inr ''{}'' else Inl (FileNotFoundError path)),
      json_loads = (\<lambda>s. Inr example_refs),
      get_mapper = (\<lambda>f k. Inr 1),
      open_zarr = (\<lambda>m k. Inr 2),
      xr_open_dataset = (\<lambda>h c k. Inr 3)\<rparr>"

definition remote_asset :: asset where
  "remote_asset =
     \<lparr>stac_href = Some ''https://dap.ceda.ac.uk/x.json'',
      stac_mapper_kwargs = None,
      stac_open_zarr_kwargs = None,
      stac_open_xarray_kwargs = None\<rparr>"

text \<open>
  The product that the constructor builds from \<open>remote_asset\<close> with empty metadata,
  given its id, its cloud format and the visibility the probes end with.
\<close>

definition sample_product :: "string \<Rightarrow> string option \<Rightarrow> string \<Rightarrow> product" where
  "sample_product ident cf vis =
     \<lparr>p_id = ident, p_order = None, p_cloud_format = cf, p_asset_stac = remote_asset,
      p_meta = [(''asset_id'', VStr ident),
                (''cloud_format'', (case cf of None \<Rightarrow> VNone | Some s \<Rightarrow> VStr s))],
      p_stac_attrs = None, p_properties = None, visibility = vis\<rparr>"

subsection \<open>Clusters\<close>

text \<open>
  What one entry of the constructor's list contributes, in order: a product itself,
  the \<open>products\<close> view of a cluster, nothing for \<open>None\<close>; and the last product with a
  given id in a list of products.
\<close>

definition contribution :: "entry \<Rightarrow> product list" where
  "contribution e =
     (case e of EntryProduct q \<Rightarrow> [q] | EntryCluster c \<Rightarrow> products c | EntryNone \<Rightarrow> [])"

definition flattened :: "entry list \<Rightarrow> product list" where
  "flattened es = concat (map contribution es)"

definition last_with_id :: "string \<Rightarrow> product list \<Rightarrow> product option" where
  "last_with_id k ps = List.find (\<lambda>p. product_id p = k) (rev ps)"

text \<open>
  Product A, reachable; cluster X with the products B and C, where B is unreachable and
  X does not show unreachable products; the outer cluster built from A and X.
\<close>

definition prod_a :: product where
  "prod_a = sample_product ''A'' (Some ''kerchunk'') ''all''"

definition prod_b :: product where
  "prod_b = sample_product ''B'' (Some ''kerchunk'') ''unreachable''"

definition prod_c :: product where
  "prod_c = sample_product ''C'' (Some ''CFA'') ''local-only''"

definition cluster_x :: cluster where
  "cluster_x =
     cluster_init (\<lambda>parent. ''0'') [EntryProduct prod_b, EntryProduct prod_c] (Some ''item'')
       None False False"

text \<open>
  The same list given to a cluster that shows unreachable products, and a cluster that
  is given A and B directly.
\<close>

definition cluster_outer_show :: cluster where
  "cluster_outer_show =
     cluster_init (\<lambda>parent. ''0'') [EntryProduct prod_a, EntryCluster cluster_x] (Some ''search'')
       None False True"

definition cluster_direct :: cluster where
  "cluster_direct =
     cluster_init (\<lambda>parent. ''0'') [EntryProduct prod_a, EntryProduct prod_b] (Some ''search'')
       None False True"

definition cluster_outer :: cluster where
  "cluster_outer =
     cluster_init (\<lambda>parent. ''0'') [EntryProduct prod_a, EntryCluster cluster_x] (Some ''search'')
       None False False"

subsection \<open>Sample fetches and options\<close>

definition example_refs_local :: json where
  "example_refs_local = JObj [(''version'', JInt 1), (''refs'', JObj
     [(''a'', JList [JStr ''/x/y'', JInt 10, JInt 20]),
      (''b'', JStr ''scalar'')])]"

text \<open>
  A world without a local copy in which the first GET request answers 500 and every
  later one answers 200 with a body that parses to the example document.
\<close>

definition env_retry :: "(nat, nat) env" where
  "env_retry =
     \<lparr>requests_head = (\<lambda>h. Inr 404),
      requests_get = (\<lambda>n h. if n = 0 then Inr \<lparr>status_code = 500, resp_text = ''''\<rparr>
                             else Inr \<lparr>status_code = 200, resp_text = ''{}''\<rparr>),
      isfile = (\<lambda>path. False),
      read_file = (\<lambda>path. Inl (FileNotFoundError path)),
      json_loads = (\<lambda>s. if s = ''{}'' then Inr example_refs else Inl (ValueError ''Expecting value'')),
      get_mapper = (\<lambda>f k. Inr 1),
      open_zarr = (\<lambda>m k. Inr 2),
      xr_open_dataset = (\<lambda>h c k. Inr 3)\<rparr>"

text \<open>An asset that brings its own options for \<open>xr.open_zarr\<close>.\<close>

definition asset_with_options :: asset where
  "asset_with_options =
     \<lparr>stac_href = Some ''https://dap.ceda.ac.uk/x.json'',
      stac_mapper_kwargs = None,
      stac_open_zarr_kwargs = Some [(''decode_times'', VBool False), (''consolidated'', VBool True)],
      stac_open_xarray_kwargs = None\<rparr>"

definition product_with_options :: product where
  "product_with_options =
     \<lparr>p_id = ''x'', p_order = None, p_cloud_format = Some ''kerchunk'',
      p_asset_stac = asset_with_options,
      p_meta = [(''asset_id'', VStr ''x''), (''cloud_format'', VStr ''kerchunk'')],
      p_stac_attrs = None, p_properties = None, visibility = ''all''\<rparr>"

section \<open>Strings and dicts\<close>

lemma startswith_append: "startswith s (a @ b) \<Longrightarrow> startswith s a"
  unfolding startswith_def
  by (metis append_eq_conv_conj take_take min_def length_append le_add1)

lemma str_contains_append: "str_contains (a @ b) s \<Longrightarrow> str_contains a s"
proof (induction s)
  case Nil
  then show ?case by simp
next
  case (Cons c cs)
  then show ?case using startswith_append by auto
qed

lemma startswith_length: "startswith s p \<Longrightarrow> length p \<le> length s"
  unfolding startswith_def by (metis length_take min.cobounded2 min.commute)

lemma replace_ne_absent: "\<not> str_contains old s \<Longrightarrow> replace_ne s old new = s"
  by (induction s old new rule: replace_ne.induct) auto

lemma replace_ne_length_le:
  "length new \<le> length old \<Longrightarrow> length (replace_ne s old new) \<le> length s"
proof (induction s old new rule: replace_ne.induct)
  case (1 old new)
  then show ?case by simp
next
  case (2 c cs old new)
  show ?case
  proof (cases "old \<noteq> [] \<and> startswith (c # cs) old")
    case True
    then have len: "length old \<le> length (c # cs)"
      using startswith_length[of "c # cs" old] by blast
    from 2(1)[OF True 2(3)]
    have "length (replace_ne (drop (length old) (c # cs)) old new) \<le> length (c # cs) - length old"
      by simp
    with True len 2(3) show ?thesis by simp
  next
    case False
    with 2(2)[OF False 2(3)] show ?thesis by auto
  qed
qed

lemma replace_ne_length_less:
  "str_contains old s \<Longrightarrow> old \<noteq> [] \<Longrightarrow> length new < length old
   \<Longrightarrow> length (replace_ne s old new) < length s"
proof (induction s old new rule: replace_ne.induct)
  case (1 old new)
  then show ?case by simp
next
  case (2 c cs old new)
  show ?case
  proof (cases "startswith (c # cs) old")
    case True
    then have len: "length old \<le> length (c # cs)"
      using startswith_length[of "c # cs" old] by blast
    have "length (replace_ne (drop (length old) (c # cs)) old new) \<le> length (c # cs) - length old"
      using replace_ne_length_le[of new old "drop (length old) (c # cs)"] 2(5) by simp
    with True len 2(4,5) show ?thesis by simp
  next
    case False
    with 2(3) have "str_contains old cs" by simp
    with 2(2) False 2(4,5) show ?thesis by auto
  qed
qed

lemma update_middle:
  "k \<notin> fst ` set xs \<Longrightarrow> AList.update k v' (xs @ (k, v) # ys) = xs @ (k, v') # ys"
  by (induction xs) auto

lemma map_of_middle:
  "k \<notin> fst ` set xs \<Longrightarrow> map_of (xs @ (k, v) # ys) k = Some v"
  by (induction xs) auto

section \<open>Rewriting a reference document\<close>

lemma is_tripleE: "is_triple v \<Longrightarrow> url_first v \<Longrightarrow> \<exists>s b c. v = JList [JStr s, b, c]"
  unfolding is_triple_def url_first_def
  by (auto split: json.splits list.splits)

lemma not_triple_rewrite: "\<not> is_triple v \<Longrightarrow> rewrite_value v = Inr v"
  unfolding is_triple_def rewrite_value_def
  by (auto split: json.splits list.splits)

lemma not_triple_localise: "\<not> is_triple v \<Longrightarrow> localise_entry v = v"
  unfolding is_triple_def localise_entry_def
  by (auto split: json.splits list.splits)

lemma https_of_prefix:
  "str_contains ''https://dap.ceda.ac.uk/'' s \<Longrightarrow> str_contains ''https://'' s"
  using str_contains_append[of "''https://''" "''dap.ceda.ac.uk/''" s] by simp

text \<open>
  The guard of the code tests for \<open>https://\<close> only, and the replacement looks for the
  whole prefix: on a string the two together are the specification's rule.
\<close>

lemma rewrite_value_url:
  "rewrite_value (JList [JStr s, b, c]) = Inr (localise_entry (JList [JStr s, b, c]))"
proof (cases "str_contains ''https://dap.ceda.ac.uk/'' s")
  case True
  then show ?thesis using https_of_prefix[OF True]
    by (simp add: rewrite_value_def localise_entry_def)
next
  case False
  then have "replace s ''https://dap.ceda.ac.uk/'' ''/'' = s"
    by (simp add: replace_def replace_ne_absent)
  with False show ?thesis
    by (simp add: rewrite_value_def localise_entry_def)
qed

lemma rewrite_value_ok:
  "(is_triple v \<longrightarrow> url_first v) \<Longrightarrow> rewrite_value v = Inr (localise_entry v)"
  using is_tripleE not_triple_rewrite not_triple_localise rewrite_value_url
  by metis

lemma rewrite_loop_map:
  "distinct (map fst (xs @ ys)) \<Longrightarrow> \<forall>v \<in> snd ` set ys. is_triple v \<longrightarrow> url_first v \<Longrightarrow>
   rewrite_loop (map fst ys) (xs @ ys) = Inr (xs @ map (\<lambda>(k, v). (k, localise_entry v)) ys)"
proof (induction ys arbitrary: xs)
  case Nil
  then show ?case by simp
next
  case (Cons kv ys)
  obtain k v where kv: "kv = (k, v)" by (cases kv)
  from Cons.prems(1) kv have notin: "k \<notin> fst ` set xs" by auto
  from Cons.prems(2) kv have rv: "rewrite_value v = Inr (localise_entry v)"
    by (intro rewrite_value_ok) auto
  have d: "distinct (map fst ((xs @ [(k, localise_entry v)]) @ ys))"
    using Cons.prems(1) kv by auto
  have a: "\<forall>v \<in> snd ` set ys. is_triple v \<longrightarrow> url_first v"
    using Cons.prems(2) by auto
  have g: "dict_get (xs @ (k, v) # ys) k = Some v"
    unfolding dict_get_def using notin by (rule map_of_middle)
  have u: "dict_set (xs @ (k, v) # ys) k (localise_entry v) = xs @ (k, localise_entry v) # ys"
    unfolding dict_set_def using notin by (rule update_middle)
  from Cons.IH[OF d a] show ?case
    unfolding kv by (simp add: g u rv del: map_of_append)
qed

lemma localise_changes:
  "localise_entry v \<noteq> v \<longleftrightarrow>
     (\<exists>s b c. v = JList [JStr s, b, c] \<and> str_contains ''https://dap.ceda.ac.uk/'' s)"
proof
  assume "localise_entry v \<noteq> v"
  then show "\<exists>s b c. v = JList [JStr s, b, c] \<and> str_contains ''https://dap.ceda.ac.uk/'' s"
    unfolding localise_entry_def by (auto split: json.splits list.splits if_splits)
next
  assume "\<exists>s b c. v = JList [JStr s, b, c] \<and> str_contains ''https://dap.ceda.ac.uk/'' s"
  then obtain s b c where v: "v = JList [JStr s, b, c]"
    and c: "str_contains ''https://dap.ceda.ac.uk/'' s" by blast
  have "length (replace s ''https://dap.ceda.ac.uk/'' ''/'') < length s"
    using replace_ne_length_less[OF c, of "''/''"] by (simp add: replace_def)
  then have "replace s ''https://dap.ceda.ac.uk/'' ''/'' \<noteq> s" by auto
  with v c show "localise_entry v \<noteq> v" by (simp add: localise_entry_def)
qed

text \<open>
  Claim C5 as stated fails: a document whose \<open>refs\<close> mapping has the entry
  \<open>[null, 0, 5]\<close>, a 3-element sequence whose first element is not a string, is not
  rewritten at all. The membership test on the first element raises \<open>TypeError\<close>, and
  neither the rewritten entry \<open>a\<close> nor the scalar \<open>b\<close> is returned.
\<close>

theorem rewrite_refs_null_url_raises:
  "dict_get [(''version'', JInt 1), (''refs'', JObj
       [(''a'', JList [JStr ''https://dap.ceda.ac.uk/x/y'', JInt 10, JInt 20]),
        (''n'', JList [JNull, JInt 0, JInt 5]),
        (''b'', JStr ''scalar'')])] ''refs''
     = Some (JObj
       [(''a'', JList [JStr ''https://dap.ceda.ac.uk/x/y'', JInt 10, JInt 20]),
        (''n'', JList [JNull, JInt 0, JInt 5]),
        (''b'', JStr ''scalar'')])
   \<and> rewrite_refs example_refs_null = Inl (TypeError ''argument is not iterable'')"
proof -
  have r: "replace ''https://dap.ceda.ac.uk/x/y'' ''https://dap.ceda.ac.uk/'' ''/'' = ''/x/y''"
    by (simp add: replace_def startswith_def)
  show ?thesis
    by (simp add: example_refs_null_def rewrite_refs_def dict_get_def dict_keys_def
        dict_set_def rewrite_value_def r startswith_def)
qed

text \<open>
  Claim C5, amended. Take a reference document with a \<open>refs\<close> mapping in which every
  3-element sequence has a string as its first element (its url). The rewriting step
  returns the same document with every entry of \<open>refs\<close> passed through
  \<open>localise_entry\<close>, keys and order kept. The entries that change are exactly the
  3-element sequences whose first element contains \<open>https://dap.ceda.ac.uk/\<close>; in a
  3-element sequence the first element has that prefix replaced by \<open>/\<close> and the other
  two elements stay; an entry that is not a 3-element sequence is unchanged.
\<close>

theorem rewrite_refs_localises:
  assumes "dict_get doc ''refs'' = Some (JObj d)"
    and "distinct (dict_keys d)"
    and "\<forall>v \<in> set (dict_values d). is_triple v \<longrightarrow> url_first v"
  shows "rewrite_refs (JObj doc) =
           Inr (JObj (dict_set doc ''refs'' (JObj (map (\<lambda>(k, v). (k, localise_entry v)) d))))
         \<and> (\<forall>v. localise_entry v \<noteq> v \<longleftrightarrow>
               (\<exists>s b c. v = JList [JStr s, b, c] \<and> str_contains ''https://dap.ceda.ac.uk/'' s))
         \<and> (\<forall>s b c. localise_entry (JList [JStr s, b, c]) =
               JList [JStr (replace s ''https://dap.ceda.ac.uk/'' ''/''), b, c])
         \<and> (\<forall>v. \<not> is_triple v \<longrightarrow> localise_entry v = v)"
proof -
  have "rewrite_loop (map fst d) ([] @ d) = Inr ([] @ map (\<lambda>(k, v). (k, localise_entry v)) d)"
    using assms(2,3) by (intro rewrite_loop_map) (auto simp: dict_keys_def dict_values_def)
  then have 1: "rewrite_refs (JObj doc) =
           Inr (JObj (dict_set doc ''refs'' (JObj (map (\<lambda>(k, v). (k, localise_entry v)) d))))"
    using assms(1) by (simp add: rewrite_refs_def dict_keys_def)
  have 3: "\<forall>s b c. localise_entry (JList [JStr s, b, c]) =
               JList [JStr (replace s ''https://dap.ceda.ac.uk/'' ''/''), b, c]"
    using rewrite_value_url https_of_prefix
    by (auto simp: localise_entry_def replace_def replace_ne_absent)
  show ?thesis using 1 3 localise_changes not_triple_localise by blast
qed

text \<open>
  The example of the claim: \<open>{"a": ["https://dap.ceda.ac.uk/x/y", 10, 20], "b": "scalar"}\<close>
  becomes \<open>{"a": ["/x/y", 10, 20], "b": "scalar"}\<close>.
\<close>

theorem rewrite_refs_localises_witness:
  "rewrite_refs example_refs = Inr (JObj [(''version'', JInt 1), (''refs'', JObj
     [(''a'', JList [JStr ''/x/y'', JInt 10, JInt 20]),
      (''b'', JStr ''scalar'')])])"
proof -
  let ?d = "[(''a'', JList [JStr ''https://dap.ceda.ac.uk/x/y'', JInt 10, JInt 20]),
      (''b'', JStr ''scalar'')]"
  let ?doc = "[(''version'', JInt 1), (''refs'', JObj ?d)]"
  have h1: "dict_get ?doc ''refs'' = Some (JObj ?d)" by (simp add: dict_get_def)
  have h2: "distinct (dict_keys ?d)" by (simp add: dict_keys_def)
  have h3: "\<forall>v \<in> set (dict_values ?d). is_triple v \<longrightarrow> url_first v"
    by (simp add: dict_values_def is_triple_def url_first_def)
  have r: "replace ''https://dap.ceda.ac.uk/x/y'' ''https://dap.ceda.ac.uk/'' ''/'' = ''/x/y''"
    by (simp add: replace_def startswith_def)
  from rewrite_refs_localises[OF h1 h2 h3]
  have "rewrite_refs (JObj ?doc) =
          Inr (JObj (dict_set ?doc ''refs'' (JObj (map (\<lambda>(k, v). (k, localise_entry v)) ?d))))"
    and l: "\<forall>s b c. localise_entry (JList [JStr s, b, c]) =
               JList [JStr (replace s ''https://dap.ceda.ac.uk/'' ''/''), b, c]"
    and n: "\<forall>v. \<not> is_triple v \<longrightarrow> localise_entry v = v"
    by blast+
  moreover have "\<not> is_triple (JStr ''scalar'')" by (simp add: is_triple_def)
  ultimately show ?thesis
    by (simp add: example_refs_def dict_set_def r)
qed

section \<open>Visibility at construction\<close>

lemma check_local_link_result:
  "check_local_link env p h w =
     (Inr (p\<lparr>visibility :=
              (if isfile env (replace h ''https://dap.ceda.ac.uk'' '''')
               then visibility p else ''unreachable'')\<rparr>),
      w @ [EIsFile (replace h ''https://dap.ceda.ac.uk'' '''')])"
  by (simp add: check_local_link_def Let_def)

text \<open>
  Claim C1 as stated fails: the href is remote, the probe answers 404 and no local copy
  exists; the product is constructed with visibility \<open>unreachable\<close>, not
  \<open>local-only\<close>.
\<close>

theorem remote_probe_failed_not_local_only:
  "str_contains ''https://'' ''https://dap.ceda.ac.uk/x.json''
   \<and> stac_href remote_asset = Some ''https://dap.ceda.ac.uk/x.json''
   \<and> requests_head env_down ''https://dap.ceda.ac.uk/x.json'' = Inr 404
   \<and> map_sum id visibility
        (fst (product_init env_down remote_asset ''x'' (Some ''kerchunk'') None ''xarray''
                (Some []) None None []))
       = Inr ''unreachable''"
  by (simp add: product_init_def set_visibility_def href_def check_local_link_result
      remote_asset_def env_down_def startswith_def)

text \<open>
  Claim C1, amended. A product constructed (mode \<open>xarray\<close>, a metadata mapping given)
  from a remote href, one containing \<open>https://\<close>, whose HEAD probe answers a status
  other than 200, has visibility \<open>local-only\<close> when the href with
  \<open>https://dap.ceda.ac.uk\<close> removed is an existing local file, and \<open>unreachable\<close>
  when it is not.
\<close>

theorem remote_probe_failed_visibility:
  assumes "stac_href asset_stac = Some h"
    and "str_contains ''https://'' h"
    and "requests_head env h = Inr status"
    and "status \<noteq> 200"
  shows "\<exists>p. fst (product_init env asset_stac ident cf order ''xarray'' (Some m)
                   stac_attrs properties w) = Inr p
           \<and> visibility p =
               (if isfile env (replace h ''https://dap.ceda.ac.uk'' '''')
                then ''local-only'' else ''unreachable'')"
  using assms
  by (simp add: product_init_def set_visibility_def href_def check_local_link_result)

theorem remote_probe_failed_visibility_witness:
  "map_sum id visibility
     (fst (product_init env_local remote_asset ''x'' (Some ''kerchunk'') None ''xarray''
             (Some []) None None []))
   = Inr ''local-only''"
proof -
  have h1: "stac_href remote_asset = Some ''https://dap.ceda.ac.uk/x.json''"
    by (simp add: remote_asset_def)
  have h2: "str_contains ''https://'' ''https://dap.ceda.ac.uk/x.json''"
    by (simp add: startswith_def)
  have h3: "requests_head env_local ''https://dap.ceda.ac.uk/x.json'' = Inr 404"
    by (simp add: env_local_def)
  have h4: "(404::int) \<noteq> 200" by simp
  have r: "replace ''https://dap.ceda.ac.uk/x.json'' ''https://dap.ceda.ac.uk'' '''' = ''/x.json''"
    by (simp add: replace_def startswith_def)
  have f: "isfile env_local ''/x.json''" by (simp add: env_local_def)
  from remote_probe_failed_visibility[OF h1 h2 h3 h4,
      of "''x''" "Some ''kerchunk''" None "[]" None None "[]"]
  show ?thesis by (auto simp: r f)
qed

lemma sample_product_constructed:
  "fst (product_init env_local remote_asset ident cf None ''xarray'' (Some []) None None [])
   = Inr (sample_product ident cf ''local-only'')"
proof -
  have r: "replace ''https://dap.ceda.ac.uk/x.json'' ''https://dap.ceda.ac.uk'' '''' = ''/x.json''"
    by (simp add: replace_def startswith_def)
  show ?thesis
    by (simp add: product_init_def set_visibility_def href_def check_local_link_result
        remote_asset_def env_local_def startswith_def r sample_product_def dict_set_def)
qed

section \<open>Construction without metadata\<close>

text \<open>
  Claim C10. Constructing a product with \<open>meta\<close> left at \<open>None\<close> (and the mode at its
  default \<open>xarray\<close>) raises the \<open>TypeError\<close> of the metadata merge, and nothing of the
  world has been probed by then: visibility is not computed. Whatever the mode is,
  construction with \<open>meta\<close> left at \<open>None\<close> fails without a probe, with that
  \<open>TypeError\<close> in mode \<open>xarray\<close> and with the \<open>NotImplementedError\<close> of the mode guard
  in any other mode. So a construction that succeeds was given a mapping for \<open>meta\<close>.
\<close>

theorem init_without_meta:
  "product_init env asset_stac ident cf order ''xarray'' None stac_attrs properties w
     = (Inl (TypeError msg_meta_none), w)
   \<and> product_init env asset_stac ident cf order mode None stac_attrs properties w
     = (Inl (if mode = ''xarray'' then TypeError msg_meta_none
             else NotImplementedError msg_mode), w)
   \<and> (fst (product_init env asset_stac ident cf order mode meta stac_attrs properties w) = Inr p
        \<longrightarrow> (\<exists>m. meta = Some m))"
proof -
  have "fst (product_init env asset_stac ident cf order mode None stac_attrs properties w) \<noteq> Inr p"
    by (simp add: product_init_def)
  then have "fst (product_init env asset_stac ident cf order mode meta stac_attrs properties w) = Inr p
        \<longrightarrow> (\<exists>m. meta = Some m)"
    by (cases meta) auto
  then show ?thesis by (simp add: product_init_def)
qed

text \<open>
  Without \<open>meta\<close> the constructor raises before any probe; with an empty mapping for
  \<open>meta\<close> it builds the product.
\<close>

theorem init_without_meta_witness:
  "product_init env_local remote_asset ''x'' (Some ''kerchunk'') None ''xarray'' None None None []
     = (Inl (TypeError msg_meta_none), [])
   \<and> fst (product_init env_local remote_asset ''x'' (Some ''kerchunk'') None ''xarray''
            (Some []) None None [])
     = Inr (sample_product ''x'' (Some ''kerchunk'') ''local-only'')
   \<and> (\<exists>m. Some ([] :: kwargs) = Some m)"
proof -
  have s: "fst (product_init env_local remote_asset ''x'' (Some ''kerchunk'') None ''xarray''
            (Some []) None None [])
     = Inr (sample_product ''x'' (Some ''kerchunk'') ''local-only'')"
    by (rule sample_product_constructed)
  from init_without_meta[of env_local remote_asset "''x''" "Some ''kerchunk''" None None None "[]"
      "''xarray''" "Some []" "sample_product ''x'' (Some ''kerchunk'') ''local-only''"]
  have "product_init env_local remote_asset ''x'' (Some ''kerchunk'') None ''xarray'' None None None []
          = (Inl (TypeError msg_meta_none), [])"
    and "fst (product_init env_local remote_asset ''x'' (Some ''kerchunk'') None ''xarray''
            (Some []) None None [])
          = Inr (sample_product ''x'' (Some ''kerchunk'') ''local-only'')
        \<longrightarrow> (\<exists>m. Some ([] :: kwargs) = Some m)"
    by blast+
  with s show ?thesis by blast
qed

section \<open>Opening a product\<close>

lemma open_kerchunk_self: "fst (snd (open_kerchunk env p local_only kwargs w)) = p"
  by (simp add: open_kerchunk_def Let_def split: option.splits prod.splits sum.splits)

lemma open_cfa_self: "fst (snd (open_cfa env p kwargs w)) = p"
  by (simp add: open_cfa_def Let_def split: option.splits)

lemma open_dataset_self: "fst (snd (open_dataset env p local_only kwargs w)) = p"
proof -
  obtain r1 p1 w1 where k: "open_kerchunk env p local_only kwargs w = (r1, p1, w1)"
    by (cases "open_kerchunk env p local_only kwargs w")
  obtain r2 p2 w2 where c: "open_cfa env p kwargs w = (r2, p2, w2)"
    by (cases "open_cfa env p kwargs w")
  have "p1 = p" using open_kerchunk_self[of env p local_only kwargs w] k by simp
  moreover have "p2 = p" using open_cfa_self[of env p kwargs w] c by simp
  ultimately show ?thesis
    by (simp add: open_dataset_def k c split: sum.splits exn.splits option.splits)
qed

lemma open_calls_self: "fst (snd (open_calls env p calls w)) = p"
proof (induction calls arbitrary: w)
  case Nil
  then show ?case by simp
next
  case (Cons call calls)
  obtain local_only kwargs where call: "call = (local_only, kwargs)" by (cases call)
  obtain r p' w' where o: "open_dataset env p local_only kwargs w = (r, p', w')"
    by (cases "open_dataset env p local_only kwargs w")
  have p': "p' = p" using open_dataset_self[of env p local_only kwargs w] o by simp
  obtain rs p'' w'' where c: "open_calls env p calls w' = (rs, p'', w'')"
    by (cases "open_calls env p calls w'")
  have "p'' = p" using Cons.IH[of w'] c by simp
  then show ?case by (simp add: call o p' c)
qed

text \<open>
  Claim C9. Whatever calls of \<open>open_dataset\<close> are made on a product, with any arguments
  and in any world, succeeding or failing, the product afterwards is the product
  before: its visibility is the value stored at construction and no other stored
  field has changed.
\<close>

theorem open_calls_keep_product:
  "visibility (fst (snd (open_calls env p calls w))) = visibility p
   \<and> fst (snd (open_calls env p calls w)) = p"
  by (simp add: open_calls_self)

text \<open>
  Claim C6 as stated fails: a product whose cloud format is unset fails to open with
  the message \<open>No cloud format given for this dataset\<close>, which names neither format.
\<close>

theorem open_unset_format_names_no_format:
  "p_cloud_format (sample_product ''x'' None ''all'') = None
   \<and> open_dataset env_down (sample_product ''x'' None ''all'') False [] []
       = (Inl (ValueError ''No cloud format given for this dataset''),
          sample_product ''x'' None ''all'', [])
   \<and> \<not> str_contains ''kerchunk'' ''No cloud format given for this dataset''
   \<and> \<not> str_contains ''CFA'' ''No cloud format given for this dataset''"
  by (simp add: open_dataset_def sample_product_def msg_no_format_def startswith_def)

text \<open>
  Claim C6, amended. For every cloud format outside \<open>kerchunk\<close> and \<open>CFA\<close>, opening the
  product fails with a \<open>ValueError\<close> and touches nothing. The message is
  \<open>No cloud format given for this dataset\<close> when the format is unset or empty;
  otherwise it is the access error when the product is \<open>local-only\<close> and the caller
  did not pass \<open>local_only=True\<close>; otherwise it is
  \<open>Cloud format not recognised - must be one of ("kerchunk", "CFA")\<close>, which names
  both supported formats.
\<close>

theorem open_unsupported_format:
  assumes "p_cloud_format p \<noteq> Some ''kerchunk''" and "p_cloud_format p \<noteq> Some ''CFA''"
  shows "open_dataset env p local_only kwargs w =
           (Inl (ValueError
              (if p_cloud_format p = None \<or> p_cloud_format p = Some '''' then msg_no_format
               else if visibility p = ''local-only'' \<and> \<not> local_only then msg_local_only
               else msg_format)), p, w)
         \<and> str_contains ''kerchunk'' msg_format \<and> str_contains ''CFA'' msg_format"
proof -
  have "str_contains ''kerchunk'' msg_format" "str_contains ''CFA'' msg_format"
    by (simp_all add: msg_format_def startswith_def)
  then show ?thesis using assms by (simp add: open_dataset_def)
qed

theorem open_unsupported_format_witness:
  "open_dataset env_down (sample_product ''x'' (Some ''zarr'') ''all'') False [] []
     = (Inl (ValueError msg_format), sample_product ''x'' (Some ''zarr'') ''all'', [])"
proof -
  have h1: "p_cloud_format (sample_product ''x'' (Some ''zarr'') ''all'') \<noteq> Some ''kerchunk''"
    and h2: "p_cloud_format (sample_product ''x'' (Some ''zarr'') ''all'') \<noteq> Some ''CFA''"
    by (simp_all add: sample_product_def)
  have c: "p_cloud_format (sample_product ''x'' (Some ''zarr'') ''all'') = Some ''zarr''"
    and v: "visibility (sample_product ''x'' (Some ''zarr'') ''all'') = ''all''"
    by (simp_all add: sample_product_def)
  from open_unsupported_format[OF h1 h2, of env_down False "[]" "[]"]
  show ?thesis by (simp add: c v)
qed

text \<open>
  Claim C8 as stated fails: a \<open>local-only\<close> product whose cloud format is unset (the
  constructor's default) fails to open with the error of the format guard, not with
  the access error.
\<close>

theorem open_local_only_unset_format:
  "fst (product_init env_local remote_asset ''x'' None None ''xarray'' (Some []) None None [])
     = Inr (sample_product ''x'' None ''local-only'')
   \<and> visibility (sample_product ''x'' None ''local-only'') = ''local-only''
   \<and> open_dataset env_local (sample_product ''x'' None ''local-only'') False [] []
       = (Inl (ValueError msg_no_format), sample_product ''x'' None ''local-only'', [])
   \<and> msg_no_format \<noteq> msg_local_only"
proof -
  have "visibility (sample_product ''x'' None ''local-only'') = ''local-only''"
    and "p_cloud_format (sample_product ''x'' None ''local-only'') = None"
    by (simp_all add: sample_product_def)
  moreover have "msg_no_format \<noteq> msg_local_only"
    by (simp add: msg_no_format_def msg_local_only_def)
  ultimately show ?thesis
    using sample_product_constructed[of "''x''" None]
    by (simp add: open_dataset_def)
qed

text \<open>
  Claim C8, amended. For every product whose cloud format is set (not empty) and whose
  visibility is \<open>local-only\<close>, \<open>open_dataset\<close> with \<open>local_only=False\<close> fails with the
  access error, whose message tells the caller to use \<open>local_only=True\<close>; the world is
  untouched, so no dataset open (and no other call) is attempted.
\<close>

theorem open_local_only_refused:
  assumes "visibility p = ''local-only''"
    and "p_cloud_format p = Some cf" and "cf \<noteq> ''''"
  shows "open_dataset env p False kwargs w = (Inl (ValueError msg_local_only), p, w)
         \<and> str_contains ''local_only=True'' msg_local_only"
proof -
  have "str_contains ''local_only=True'' msg_local_only"
    by (simp add: msg_local_only_def startswith_def)
  then show ?thesis using assms by (simp add: open_dataset_def)
qed

theorem open_local_only_refused_witness:
  "open_dataset env_local (sample_product ''x'' (Some ''kerchunk'') ''local-only'') False [] []
     = (Inl (ValueError msg_local_only), sample_product ''x'' (Some ''kerchunk'') ''local-only'', [])"
proof -
  have h1: "visibility (sample_product ''x'' (Some ''kerchunk'') ''local-only'') = ''local-only''"
    and h2: "p_cloud_format (sample_product ''x'' (Some ''kerchunk'') ''local-only'') = Some ''kerchunk''"
    and h3: "''kerchunk'' \<noteq> ''''"
    by (simp_all add: sample_product_def)
  from open_local_only_refused[OF h1 h2 h3, of env_local "[]" "[]"]
  show ?thesis by simp
qed

section \<open>Clusters\<close>

lemma find_append:
  "List.find P (xs @ ys) = (case List.find P xs of None \<Rightarrow> List.find P ys | Some x \<Rightarrow> Some x)"
  by (induction xs) auto

lemma add_products_append:
  "add_products (xs @ ys) d = add_products ys (add_products xs d)"
  by (induction xs arbitrary: d) auto

lemma add_entries_flattened: "add_entries es d = add_products (flattened es) d"
proof (induction es arbitrary: d)
  case Nil
  then show ?case by (simp add: flattened_def)
next
  case (Cons e es)
  show ?case
    by (cases e) (simp_all add: Cons.IH flattened_def contribution_def add_products_append)
qed

lemma add_products_distinct:
  "distinct (map fst d) \<Longrightarrow> distinct (map fst (add_products ps d))"
  by (induction ps arbitrary: d) (auto simp: dict_set_def distinct_update)

lemma add_products_keys:
  "fst ` set (add_products ps d) = fst ` set d \<union> product_id ` set ps"
  by (induction ps arbitrary: d) (auto simp: dict_set_def dom_update)

lemma add_products_lookup:
  "map_of (add_products ps d) k =
     (case last_with_id k ps of None \<Rightarrow> map_of d k | Some p \<Rightarrow> Some p)"
proof (induction ps arbitrary: d)
  case Nil
  then show ?case by (simp add: last_with_id_def)
next
  case (Cons p ps)
  have "last_with_id k (p # ps) =
          (case last_with_id k ps of
             None \<Rightarrow> (if product_id p = k then Some p else None)
           | Some q \<Rightarrow> Some q)"
    by (simp add: last_with_id_def find_append split: option.splits)
  then show ?case
    by (simp add: Cons.IH dict_set_def update_conv' split: option.splits)
qed

text \<open>
  Claim C2 says that every product contained in a nested cluster is merged into the
  outer cluster's product mapping. The constructor does not do that: B is a product of
  the nested cluster X, but it is unreachable and X hides unreachable products from its
  \<open>products\<close> view, which is what the constructor iterates. The outer cluster built from
  A and X has no entry for B, although it was asked to show unreachable products, while
  the cluster that is given B directly keeps it.
\<close>

theorem nested_unreachable_not_merged:
  "dict_get (c_products cluster_x) ''B'' = Some prod_b
   \<and> c_show_unreachable cluster_outer_show
   \<and> dict_get (c_products cluster_outer_show) ''B'' = None
   \<and> dict_keys (c_products cluster_outer_show) = [''A'', ''C'']
   \<and> dict_get (c_products cluster_direct) ''B'' = Some prod_b
   \<and> dict_keys (c_products cluster_direct) = [''A'', ''B'']"
  by (simp add: cluster_outer_show_def cluster_direct_def cluster_x_def cluster_init_def
      products_def dict_get_def dict_set_def dict_keys_def dict_values_def product_id_def
      prod_a_def prod_b_def prod_c_def sample_product_def)

text \<open>
  What the constructor computes, for every list of entries: the product mapping holds
  each id once; its ids are those of the entries that are products and of the products
  in the \<open>products\<close> view of the entries that are clusters; and under each id it holds
  the product with that id that was processed last.
\<close>

lemma cluster_init_flattens:
  "distinct (dict_keys (c_products
      (cluster_init hash_id entries parent_id meta local_only show_unreachable)))
   \<and> set (dict_keys (c_products
      (cluster_init hash_id entries parent_id meta local_only show_unreachable)))
     = product_id ` set (flattened entries)
   \<and> (\<forall>k. dict_get (c_products
      (cluster_init hash_id entries parent_id meta local_only show_unreachable)) k
     = last_with_id k (flattened entries))"
proof -
  have p: "c_products (cluster_init hash_id entries parent_id meta local_only show_unreachable)
             = add_products (flattened entries) []"
    by (simp add: cluster_init_def add_entries_flattened)
  have 1: "distinct (map fst (add_products (flattened entries) []))"
    by (rule add_products_distinct) simp
  have 2: "set (map fst (add_products (flattened entries) []))
             = product_id ` set (flattened entries)"
    using add_products_keys[of "flattened entries" "[]"] by simp
  have 3: "\<forall>k. map_of (add_products (flattened entries) []) k = last_with_id k (flattened entries)"
    by (simp add: add_products_lookup split: option.splits)
  show ?thesis using 1 2 3 by (simp add: p dict_keys_def dict_get_def)
qed

text \<open>
  The example of the specification, with B reachable inside a cluster that shows all
  its products: the mapping holds A, B and C once each, in that order.
\<close>

lemma cluster_init_example:
  "dict_keys (c_products
     (cluster_init (\<lambda>parent. ''0'')
        [EntryProduct prod_a,
         EntryCluster (cluster_init (\<lambda>parent. ''0'') [EntryProduct prod_b, EntryProduct prod_c]
                         None None False True)]
        None None False False))
   = [''A'', ''B'', ''C'']"
  by (simp add: cluster_init_def products_def dict_get_def
      dict_set_def dict_keys_def dict_values_def product_id_def prod_a_def prod_b_def prod_c_def
      sample_product_def)

lemma getitem_present:
  "dict_get (c_products c) k = Some p \<Longrightarrow> getitem c (Key k) = Inr p"
  by (simp add: getitem_def)

text \<open>
  Both paths resolve an index in the same way: where indexing gives a product,
  \<open>open_dataset\<close> of the cluster opens that product with the effective \<open>local_only\<close>;
  where a position is out of range, both raise the same \<open>IndexError\<close>.
\<close>

lemma cluster_open_dataset_resolves:
  "getitem c idx = Inr p \<Longrightarrow>
     cluster_open_dataset env c idx ''xarray'' local_only kwargs w =
       (map_sum id Some (fst (open_dataset env p (local_only \<or> c_local_only c) kwargs w)),
        snd (snd (open_dataset env p (local_only \<or> c_local_only c) kwargs w)))"
  by (cases "open_dataset env p (local_only \<or> c_local_only c) kwargs w")
    (auto simp: getitem_def cluster_open_dataset_def Let_def split: sum.splits option.splits index.splits)

lemma cluster_open_dataset_out_of_range:
  "getitem c (Pos i) = Inl e \<Longrightarrow>
     cluster_open_dataset env c (Pos i) ''xarray'' local_only kwargs w = (Inl e, w)"
proof -
  assume g: "getitem c (Pos i) = Inl e"
  show ?thesis
  proof (cases "list_index (dict_keys (c_products c)) i")
    case (Inl e')
    with g show ?thesis by (simp add: getitem_def cluster_open_dataset_def)
  next
    case (Inr k)
    then have "k \<in> set (dict_keys (c_products c))"
      by (auto simp: list_index_def split: if_splits)
    then obtain p where "dict_get (c_products c) k = Some p"
      by (auto simp: dict_keys_def dict_get_def weak_map_of_SomeI
          dest!: weak_map_of_SomeI)
    with g Inr show ?thesis by (simp add: getitem_def)
  qed
qed

text \<open>
  Claim C3. For every id that is not a key of the cluster's product mapping, indexing
  the cluster with the id raises \<open>IndexError\<close> (the id is not found in the available
  products), while \<open>open_dataset\<close> of the cluster with that id and mode \<open>xarray\<close> logs
  one warning, makes no other call, and returns \<open>None\<close>.
\<close>

theorem missing_id_raises_or_warns:
  assumes "k \<notin> set (dict_keys (c_products c))"
  shows "getitem c (Key k) = Inl (IndexError (msg_not_in_products k))
         \<and> cluster_open_dataset env c (Key k) ''xarray'' local_only kwargs w
             = (Inr None, w @ [ELogWarning (msg_not_in_datasets k)])"
proof -
  from assms have "dict_get (c_products c) k = None"
    by (simp add: dict_keys_def dict_get_def map_of_eq_None_iff)
  then show ?thesis by (simp add: getitem_def cluster_open_dataset_def)
qed

theorem missing_id_raises_or_warns_witness:
  "getitem cluster_outer (Key ''missing-id'')
     = Inl (IndexError (msg_not_in_products ''missing-id''))
   \<and> cluster_open_dataset env_down cluster_outer (Key ''missing-id'') ''xarray'' False [] []
       = (Inr None, [ELogWarning (msg_not_in_datasets ''missing-id'')])"
proof -
  have "dict_keys (c_products cluster_outer) = [''A'', ''C'']"
    by (simp add: cluster_outer_def cluster_x_def cluster_init_def products_def dict_get_def
      dict_set_def dict_keys_def dict_values_def product_id_def prod_a_def prod_b_def prod_c_def
      sample_product_def)
  then have h: "''missing-id'' \<notin> set (dict_keys (c_products cluster_outer))" by simp
  from missing_id_raises_or_warns[OF h, of env_down False "[]" "[]"]
  show ?thesis by simp
qed

section \<open>Fetching a reference document\<close>

lemma n_gets_get: "n_gets (w @ [EGet h]) = Suc (n_gets w)"
  by (simp add: n_gets_def)

lemma n_gets_isfile: "n_gets (w @ [EIsFile path]) = n_gets w"
  by (simp add: n_gets_def)

lemma fetch_loop_stop:
  "\<not> (attempts < 3 \<and> \<not> success) \<Longrightarrow>
   fetch_loop env h attempts success resp w = (Inr (attempts, success, resp), w)"
  by (subst fetch_loop.simps) auto

lemma fetch_loop_raise:
  "attempts < 3 \<Longrightarrow> requests_get env (n_gets w) h = Inl e \<Longrightarrow>
   fetch_loop env h attempts False resp w = (Inl e, w @ [EGet h])"
  by (subst fetch_loop.simps) simp

lemma fetch_loop_again:
  "attempts < 3 \<Longrightarrow> requests_get env (n_gets w) h = Inr r \<Longrightarrow> status_code r \<noteq> 200 \<Longrightarrow>
   fetch_loop env h attempts False resp w =
     fetch_loop env h (attempts + 1) False (Some r) (w @ [EGet h])"
  by (subst fetch_loop.simps) simp

lemma fetch_loop_ok:
  "attempts < 3 \<Longrightarrow> requests_get env (n_gets w) h = Inr r \<Longrightarrow> status_code r = 200 \<Longrightarrow>
   fetch_loop env h attempts False resp w = (Inr (attempts + 1, True, Some r), w @ [EGet h])"
  by (subst fetch_loop.simps) (simp add: fetch_loop_stop)

text \<open>The loop makes at most \<open>3 - attempts\<close> requests and nothing else.\<close>

lemma fetch_loop_trace:
  "\<exists>n \<le> 3 - attempts. snd (fetch_loop env h attempts success resp w) = w @ replicate n (EGet h)"
proof (induction env h attempts success resp w rule: fetch_loop.induct)
  case (1 env h attempts success resp w)
  show ?case
  proof (cases "attempts < 3 \<and> \<not> success")
    case False
    have "snd (fetch_loop env h attempts success resp w) = w @ replicate 0 (EGet h)"
      using fetch_loop_stop[OF False, of env h resp w] by simp
    then show ?thesis by blast
  next
    case True
    show ?thesis
    proof (cases "requests_get env (n_gets w) h")
      case (Inl e)
      from True have a: "attempts < 3" and s: "success = False" by simp_all
      have "snd (fetch_loop env h attempts success resp w) = w @ replicate 1 (EGet h)"
        unfolding s using fetch_loop_raise[OF a Inl, of resp] by simp
      moreover have "1 \<le> 3 - attempts" using a by arith
      ultimately show ?thesis by blast
    next
      case (Inr r)
      from 1[OF True Inr] obtain n where n: "n \<le> 3 - (attempts + 1)"
        and s: "snd (fetch_loop env h (attempts + 1) (if status_code r = 200 then True else success)
                   (Some r) (w @ [EGet h])) = (w @ [EGet h]) @ replicate n (EGet h)"
        by blast
      have "fetch_loop env h attempts success resp w =
              fetch_loop env h (attempts + 1) (if status_code r = 200 then True else success)
                   (Some r) (w @ [EGet h])"
        using True Inr by (subst fetch_loop.simps) simp
      with s have "snd (fetch_loop env h attempts success resp w) = w @ replicate (Suc n) (EGet h)"
        by simp
      moreover have "Suc n \<le> 3 - attempts" using n True by arith
      ultimately show ?thesis by blast
    qed
  qed
qed

text \<open>Requests that all answer with a status other than 200 use up the attempts.\<close>

lemma fetch_loop_exhausted:
  "attempts + j = 3 \<Longrightarrow>
   \<forall>i < j. \<exists>r. requests_get env (n_gets w + i) h = Inr r \<and> status_code r \<noteq> 200 \<Longrightarrow>
   \<exists>resp'. fetch_loop env h attempts False resp w
             = (Inr (3, False, resp'), w @ replicate j (EGet h))"
proof (induction j arbitrary: attempts resp w)
  case 0
  then show ?case by (simp add: fetch_loop_stop)
next
  case (Suc j)
  from Suc.prems(2) obtain r where r: "requests_get env (n_gets w) h = Inr r" "status_code r \<noteq> 200"
    by fastforce
  have a: "attempts < 3" using Suc.prems(1) by simp
  have rest: "\<forall>i < j. \<exists>r. requests_get env (n_gets (w @ [EGet h]) + i) h = Inr r \<and> status_code r \<noteq> 200"
    using Suc.prems(2) by (auto simp: n_gets_get)
  have "(attempts + 1) + j = 3" using Suc.prems(1) by simp
  from Suc.IH[OF this rest, of "Some r"] obtain resp' where
    "fetch_loop env h (attempts + 1) False (Some r) (w @ [EGet h])
       = (Inr (3, False, resp'), (w @ [EGet h]) @ replicate j (EGet h))" by blast
  then show ?case using fetch_loop_again[OF a r, of resp] by (simp add: replicate_append_same)
qed

text \<open>The first answer 200 after \<open>j\<close> other answers ends the loop at that request.\<close>

lemma fetch_loop_success:
  "attempts + j < 3 \<Longrightarrow>
   \<forall>i < j. \<exists>r'. requests_get env (n_gets w + i) h = Inr r' \<and> status_code r' \<noteq> 200 \<Longrightarrow>
   requests_get env (n_gets w + j) h = Inr r \<Longrightarrow> status_code r = 200 \<Longrightarrow>
   fetch_loop env h attempts False resp w
     = (Inr (attempts + j + 1, True, Some r), w @ replicate (Suc j) (EGet h))"
proof (induction j arbitrary: attempts resp w)
  case 0
  then show ?case using fetch_loop_ok[of attempts env w h r resp] by simp
next
  case (Suc j)
  from Suc.prems(2) obtain r' where r': "requests_get env (n_gets w) h = Inr r'" "status_code r' \<noteq> 200"
    by fastforce
  have a: "attempts < 3" using Suc.prems(1) by simp
  have rest: "\<forall>i < j. \<exists>r'. requests_get env (n_gets (w @ [EGet h]) + i) h = Inr r' \<and> status_code r' \<noteq> 200"
    using Suc.prems(2) by (auto simp: n_gets_get)
  have ok: "requests_get env (n_gets (w @ [EGet h]) + j) h = Inr r"
    using Suc.prems(3) by (simp add: n_gets_get)
  have "(attempts + 1) + j < 3" using Suc.prems(1) by simp
  from Suc.IH[OF this rest ok Suc.prems(4), of "Some r'"]
  show ?case using fetch_loop_again[OF a r', of resp] by (simp add: replicate_append_same)
qed

lemma fetch_document_remote:
  assumes "\<not> isfile env (replace h ''https://dap.ceda.ac.uk'' '''')"
  shows "fetch_document env h w =
     (case fetch_loop env h 0 False None (w @ [EIsFile (replace h ''https://dap.ceda.ac.uk'' '''')]) of
        (Inl e, w2) \<Rightarrow> (Inl e, w2)
      | (Inr (attempts, success, resp), w2) \<Rightarrow>
          if attempts \<ge> 3 \<and> \<not> success then (Inl (ValueError (msg_download h)), w2)
          else (case resp of
                  None \<Rightarrow> (Inl (UnboundLocalError ''resp''), w2)
                | Some r \<Rightarrow> (json_loads env (resp_text r), w2)))"
  using assms by (simp add: fetch_document_def Let_def)

lemma fetch_document_world:
  "snd (fetch_kerchunk_make_local env h w) = snd (fetch_document env h w)"
  by (simp add: fetch_kerchunk_make_local_def split: prod.splits sum.splits)

lemma fetch_document_gets:
  assumes "\<not> isfile env (replace h ''https://dap.ceda.ac.uk'' '''')"
  shows "\<exists>n \<le> 3. snd (fetch_document env h w)
            = w @ EIsFile (replace h ''https://dap.ceda.ac.uk'' '''') # replicate n (EGet h)"
proof -
  let ?w1 = "w @ [EIsFile (replace h ''https://dap.ceda.ac.uk'' '''')]"
  from fetch_loop_trace[of 0 env h False None ?w1]
  obtain n where n: "n \<le> 3" and s: "snd (fetch_loop env h 0 False None ?w1) = ?w1 @ replicate n (EGet h)"
    by auto
  have "snd (fetch_document env h w) = snd (fetch_loop env h 0 False None ?w1)"
    unfolding fetch_document_remote[OF assms]
    by (simp split: prod.splits sum.splits option.splits)
  with s n show ?thesis by auto
qed

text \<open>
  Claim C4. When the localized path of the reference document is not a file on disk,
  fetching makes at most 3 GET requests (and nothing else but the probe of the local
  path). If the next 3 requests all answer a status other than 200, a \<open>ValueError\<close>
  (download unsuccessful, tried 3 times) is raised after exactly 3 requests. If one of
  the first 3 requests answers 200 and those before it answered another status, no
  further request is made, the body of that answer is parsed, and the parsed document
  goes on to the rewriting step whose result is returned.
\<close>

theorem fetch_retries:
  assumes "\<not> isfile env (replace h ''https://dap.ceda.ac.uk'' '''')"
  shows "(\<exists>n \<le> 3. snd (fetch_kerchunk_make_local env h w)
            = w @ EIsFile (replace h ''https://dap.ceda.ac.uk'' '''') # replicate n (EGet h))
       \<and> ((\<forall>i < 3. \<exists>r. requests_get env (n_gets w + i) h = Inr r \<and> status_code r \<noteq> 200) \<longrightarrow>
            fetch_kerchunk_make_local env h w =
              (Inl (ValueError (msg_download h)),
               w @ EIsFile (replace h ''https://dap.ceda.ac.uk'' '''') # replicate 3 (EGet h)))
       \<and> (\<forall>j r. j < 3
              \<and> (\<forall>i < j. \<exists>r'. requests_get env (n_gets w + i) h = Inr r' \<and> status_code r' \<noteq> 200)
              \<and> requests_get env (n_gets w + j) h = Inr r \<and> status_code r = 200 \<longrightarrow>
            fetch_document env h w =
              (json_loads env (resp_text r),
               w @ EIsFile (replace h ''https://dap.ceda.ac.uk'' '''') # replicate (Suc j) (EGet h))
            \<and> fetch_kerchunk_make_local env h w =
              ((case json_loads env (resp_text r) of Inl e \<Rightarrow> Inl e | Inr refs \<Rightarrow> rewrite_refs refs),
               w @ EIsFile (replace h ''https://dap.ceda.ac.uk'' '''') # replicate (Suc j) (EGet h)))"
proof (intro conjI allI impI)
  let ?local = "replace h ''https://dap.ceda.ac.uk'' ''''"
  let ?w1 = "w @ [EIsFile ?local]"
  show "\<exists>n \<le> 3. snd (fetch_kerchunk_make_local env h w) = w @ EIsFile ?local # replicate n (EGet h)"
    using fetch_document_gets[OF assms] by (simp add: fetch_document_world)
  {
    assume all: "\<forall>i < 3. \<exists>r. requests_get env (n_gets w + i) h = Inr r \<and> status_code r \<noteq> 200"
    then have "\<forall>i < 3. \<exists>r. requests_get env (n_gets ?w1 + i) h = Inr r \<and> status_code r \<noteq> 200"
      by (simp add: n_gets_isfile)
    from fetch_loop_exhausted[OF _ this, of 0 None] obtain resp' where
      "fetch_loop env h 0 False None ?w1 = (Inr (3, False, resp'), ?w1 @ replicate 3 (EGet h))"
      by auto
    then show "fetch_kerchunk_make_local env h w =
              (Inl (ValueError (msg_download h)), w @ EIsFile ?local # replicate 3 (EGet h))"
      by (simp add: fetch_kerchunk_make_local_def fetch_document_remote[OF assms])
  }
  fix j r
  assume a: "j < 3
      \<and> (\<forall>i < j. \<exists>r'. requests_get env (n_gets w + i) h = Inr r' \<and> status_code r' \<noteq> 200)
      \<and> requests_get env (n_gets w + j) h = Inr r \<and> status_code r = 200"
  then have j: "0 + j < 3"
    and f: "\<forall>i < j. \<exists>r'. requests_get env (n_gets ?w1 + i) h = Inr r' \<and> status_code r' \<noteq> 200"
    and ok: "requests_get env (n_gets ?w1 + j) h = Inr r" and st: "status_code r = 200"
    by (simp_all add: n_gets_isfile)
  have l: "fetch_loop env h 0 False None ?w1
          = (Inr (0 + j + 1, True, Some r), ?w1 @ replicate (Suc j) (EGet h))"
    by (rule fetch_loop_success[OF j f ok st])
  then show d: "fetch_document env h w =
              (json_loads env (resp_text r), w @ EIsFile ?local # replicate (Suc j) (EGet h))"
    by (simp add: fetch_document_remote[OF assms])
  show "fetch_kerchunk_make_local env h w =
              ((case json_loads env (resp_text r) of Inl e \<Rightarrow> Inl e | Inr refs \<Rightarrow> rewrite_refs refs),
               w @ EIsFile ?local # replicate (Suc j) (EGet h))"
    by (simp add: fetch_kerchunk_make_local_def d split: sum.splits)
qed

lemma example_refs_rewritten: "rewrite_refs example_refs = Inr example_refs_local"
proof -
  have r: "replace ''https://dap.ceda.ac.uk/x/y'' ''https://dap.ceda.ac.uk/'' ''/'' = ''/x/y''"
    by (simp add: replace_def startswith_def)
  show ?thesis
    by (simp add: example_refs_def example_refs_local_def rewrite_refs_def dict_get_def
        dict_keys_def dict_set_def rewrite_value_def r startswith_def)
qed

lemma sample_local_path:
  "replace ''https://dap.ceda.ac.uk/x.json'' ''https://dap.ceda.ac.uk'' '''' = ''/x.json''"
  by (simp add: replace_def startswith_def)

text \<open>
  A first answer 500 and a second answer 200: two requests, and the rewritten example
  document. Three answers 404: three requests, and the error.
\<close>

theorem fetch_retries_witness:
  "fetch_kerchunk_make_local env_retry ''https://dap.ceda.ac.uk/x.json'' []
     = (Inr example_refs_local,
        [EIsFile ''/x.json'', EGet ''https://dap.ceda.ac.uk/x.json'',
         EGet ''https://dap.ceda.ac.uk/x.json''])
   \<and> fetch_kerchunk_make_local env_down ''https://dap.ceda.ac.uk/x.json'' []
     = (Inl (ValueError (msg_download ''https://dap.ceda.ac.uk/x.json'')),
        [EIsFile ''/x.json'', EGet ''https://dap.ceda.ac.uk/x.json'',
         EGet ''https://dap.ceda.ac.uk/x.json'', EGet ''https://dap.ceda.ac.uk/x.json''])"
proof -
  let ?h = "''https://dap.ceda.ac.uk/x.json''"
  let ?ok = "\<lparr>status_code = 200, resp_text = ''{}''\<rparr>"
  have n1: "\<not> isfile env_retry (replace ?h ''https://dap.ceda.ac.uk'' '''')"
    by (simp add: env_retry_def)
  have n2: "\<not> isfile env_down (replace ?h ''https://dap.ceda.ac.uk'' '''')"
    by (simp add: env_down_def)
  have g: "(1::nat) < 3
      \<and> (\<forall>i < 1. \<exists>r'. requests_get env_retry (n_gets [] + i) ?h = Inr r' \<and> status_code r' \<noteq> 200)
      \<and> requests_get env_retry (n_gets [] + 1) ?h = Inr ?ok \<and> status_code ?ok = 200"
    by (simp add: env_retry_def n_gets_def)
  have b: "\<forall>i < 3. \<exists>r. requests_get env_down (n_gets [] + i) ?h = Inr r \<and> status_code r \<noteq> 200"
    by (simp add: env_down_def)
  have p: "json_loads env_retry ''{}'' = Inr example_refs"
    by (simp add: env_retry_def)
  from fetch_retries[OF n1, of "[]"] g
  have "fetch_kerchunk_make_local env_retry ?h [] =
          ((case json_loads env_retry (resp_text ?ok) of Inl e \<Rightarrow> Inl e | Inr refs \<Rightarrow> rewrite_refs refs),
           [] @ EIsFile (replace ?h ''https://dap.ceda.ac.uk'' '''') # replicate (Suc 1) (EGet ?h))"
    by blast
  moreover from fetch_retries[OF n2, of "[]"] b
  have "fetch_kerchunk_make_local env_down ?h [] =
          (Inl (ValueError (msg_download ?h)),
           [] @ EIsFile (replace ?h ''https://dap.ceda.ac.uk'' '''') # replicate 3 (EGet ?h))"
    by blast
  ultimately show ?thesis
    by (simp add: p example_refs_rewritten sample_local_path numeral_3_eq_3)
qed

section \<open>Options of a kerchunk open\<close>

lemma dict_merge_lookup:
  "distinct (map fst b) \<Longrightarrow>
   map_of (dict_merge a b) k = (case map_of b k of None \<Rightarrow> map_of a k | Some v \<Rightarrow> Some v)"
proof (induction b arbitrary: a)
  case Nil
  then show ?case by simp
next
  case (Cons kv b)
  obtain k' v' where kv: "kv = (k', v')" by (cases kv)
  from Cons.prems kv have d: "distinct (map fst b)" and n: "k' \<notin> fst ` set b" by auto
  from n have "map_of b k' = None" by (simp add: map_of_eq_None_iff)
  then show ?case
    using Cons.IH[OF d, of "dict_set a k' v'"]
    by (auto simp: kv dict_set_def update_conv' split: option.splits)
qed

lemma fetch_events:
  "set (snd (fetch_kerchunk_make_local env h w))
     \<subseteq> set w \<union> {EIsFile (replace h ''https://dap.ceda.ac.uk'' ''''), EGet h,
                  EOpenFile (replace h ''https://dap.ceda.ac.uk'' '''')}"
proof (cases "isfile env (replace h ''https://dap.ceda.ac.uk'' '''')")
  case True
  then show ?thesis
    by (auto simp: fetch_document_world fetch_document_def Let_def split: sum.splits)
next
  case False
  from fetch_document_gets[OF False, of w] show ?thesis
    by (auto simp: fetch_document_world)
qed

lemma open_kerchunk_zarr_event:
  assumes "EOpenZarr mapper zk \<in> set (snd (snd (open_kerchunk env p local_only kwargs w)))"
    and "EOpenZarr mapper zk \<notin> set w"
  shows "zk = dict_merge
           (zarr_kwargs_default
              (case stac_open_zarr_kwargs (p_asset_stac p) of None \<Rightarrow> [] | Some d \<Rightarrow> d)) kwargs"
proof (cases "stac_href (p_asset_stac p)")
  case None
  with assms show ?thesis by (simp add: open_kerchunk_def)
next
  case (Some h)
  have f: "EOpenZarr mapper zk \<notin> set (snd (fetch_kerchunk_make_local env h w))"
    using fetch_events[of env h w] assms(2) by auto
  obtain r w' where fk: "fetch_kerchunk_make_local env h w = (r, w')"
    by (cases "fetch_kerchunk_make_local env h w")
  with f have f': "EOpenZarr mapper zk \<notin> set w'" by simp
  from assms(1) show ?thesis
    using assms(2) f'
    by (auto simp: open_kerchunk_def Some Let_def fk split: if_splits sum.splits)
qed

text \<open>
  Claim C7. Whenever \<open>_open_kerchunk\<close> calls \<open>xr.open_zarr\<close>, the options of the call are
  the default \<open>consolidated=False\<close>, overridden by the asset's \<open>open_zarr_kwargs\<close>,
  overridden in turn by the caller's keyword options: looking a key up in the effective
  options gives the caller's value when the caller set the key, else the asset's value
  when the asset set it, else \<open>False\<close> for \<open>consolidated\<close> and nothing for any other key.
\<close>

theorem kerchunk_effective_options:
  assumes "EOpenZarr mapper zk \<in> set (snd (snd (open_kerchunk env p local_only kwargs w)))"
    and "EOpenZarr mapper zk \<notin> set w"
    and "open_zarr_kwargs = (case stac_open_zarr_kwargs (p_asset_stac p) of None \<Rightarrow> [] | Some d \<Rightarrow> d)"
    and "distinct (dict_keys open_zarr_kwargs)"
    and "distinct (dict_keys kwargs)"
  shows "zk = dict_merge (dict_merge [(''consolidated'', VBool False)] open_zarr_kwargs) kwargs
       \<and> (\<forall>k. dict_get zk k =
            (case dict_get kwargs k of
               Some v \<Rightarrow> Some v
             | None \<Rightarrow>
                 (case dict_get open_zarr_kwargs k of
                    Some v \<Rightarrow> Some v
                  | None \<Rightarrow> if k = ''consolidated'' then Some (VBool False) else None)))"
proof -
  have z: "zk = dict_merge (dict_merge [(''consolidated'', VBool False)] open_zarr_kwargs) kwargs"
    using open_kerchunk_zarr_event[OF assms(1,2)] assms(3)
    by (simp add: zarr_kwargs_default_def)
  have "\<forall>k. map_of zk k =
            (case map_of kwargs k of
               Some v \<Rightarrow> Some v
             | None \<Rightarrow>
                 (case map_of open_zarr_kwargs k of
                    Some v \<Rightarrow> Some v
                  | None \<Rightarrow> if k = ''consolidated'' then Some (VBool False) else None))"
    unfolding z using assms(4,5)
    by (simp add: dict_merge_lookup dict_keys_def split: option.splits)
  with z show ?thesis unfolding dict_get_def by blast
qed

text \<open>
  The asset sets \<open>consolidated\<close> to true and \<open>decode_times\<close> to false, the caller sets
  \<open>decode_times\<close> to true: \<open>xr.open_zarr\<close> is called with both true.
\<close>

theorem kerchunk_effective_options_witness:
  "snd (snd (open_kerchunk env_local product_with_options False [(''decode_times'', VBool True)] []))
     = [EGetMapper (FoHref ''https://dap.ceda.ac.uk/x.json'') [],
        EOpenZarr 1 [(''consolidated'', VBool True), (''decode_times'', VBool True)]]
   \<and> dict_get [(''consolidated'', VBool True), (''decode_times'', VBool True)] ''consolidated''
       = Some (VBool True)
   \<and> dict_get [(''consolidated'', VBool True), (''decode_times'', VBool True)] ''decode_times''
       = Some (VBool True)"
proof -
  let ?zk = "[(''consolidated'', VBool True), (''decode_times'', VBool True)]"
  let ?kw = "[(''decode_times'', VBool True)]"
  let ?oz = "[(''decode_times'', VBool False), (''consolidated'', VBool True)]"
  have t: "snd (snd (open_kerchunk env_local product_with_options False ?kw []))
     = [EGetMapper (FoHref ''https://dap.ceda.ac.uk/x.json'') [], EOpenZarr 1 ?zk]"
    by (simp add: open_kerchunk_def product_with_options_def asset_with_options_def env_local_def
        zarr_kwargs_default_def dict_set_def dict_keys_def)
  then have h1: "EOpenZarr 1 ?zk
      \<in> set (snd (snd (open_kerchunk env_local product_with_options False ?kw [])))"
    by simp
  have h2: "EOpenZarr (1::nat) ?zk \<notin> set []" by simp
  have h3: "?oz = (case stac_open_zarr_kwargs (p_asset_stac product_with_options) of
                     None \<Rightarrow> [] | Some d \<Rightarrow> d)"
    by (simp add: product_with_options_def asset_with_options_def)
  have h4: "distinct (dict_keys ?oz)" by (simp add: dict_keys_def)
  have h5: "distinct (dict_keys ?kw)" by (simp add: dict_keys_def)
  from kerchunk_effective_options[OF h1 h2 h3 h4 h5]
  have a: "\<forall>k. dict_get ?zk k =
            (case dict_get ?kw k of
               Some v \<Rightarrow> Some v
             | None \<Rightarrow>
                 (case dict_get ?oz k of
                    Some v \<Rightarrow> Some v
                  | None \<Rightarrow> if k = ''consolidated'' then Some (VBool False) else None))"
    by blast
  from a[rule_format, of "''consolidated''"]
  have c: "dict_get ?zk ''consolidated'' = Some (VBool True)"
    by (simp add: dict_get_def)
  from a[rule_format, of "''decode_times''"]
  have d: "dict_get ?zk ''decode_times'' = Some (VBool True)"
    by (simp add: dict_get_def)
  from t c d show ?thesis by blast
qed

end
